theory Spec2Isabelle
  imports Complex_Main "HOL-Library.Word"
begin

section \<open>The chromatogram catalog of the ABI reader (ChromatogramList\_ABI.cpp)\<close>

text \<open>
  The C++ type \<open>double\<close> is the type variable \<open>'d\<close>. The catalog compares doubles with
  \<open><\<close> (as keys of a \<open>std::map\<close>), adds them with \<open>+=\<close>, value-initialises them to zero and
  prints them; so \<open>'d\<close> is any linearly ordered type with \<open>0\<close> and \<open>+\<close>, and no law of
  addition is assumed anywhere. (A linear order excludes NaN keys.)
  \<open>size_t\<close> values are \<open>nat\<close>, \<open>int\<close> values are \<open>int\<close>; the two conversions from
  \<open>size_t\<close> to \<open>int\<close> that the source makes are written out (\<open>int_of_size_t\<close>).
\<close>

subsection \<open>The vendor interface (WiffFile, Experiment, Target)\<close>

text \<open>
  The declarations of the vendor interface are not part of the sources at hand; the
  member functions the catalog calls are fields of the records below, with the argument
  types of the calls.
\<close>

record 'd Target =
  Q1 :: 'd
  Q3 :: 'd
  dwellTime :: 'd
  collisionEnergy :: 'd
  declusteringPotential :: 'd

record 'd Experiment =
  getSRMSize :: nat
  getSRM :: "int \<Rightarrow> 'd Target"
  getSIC :: "int \<Rightarrow> 'd list \<times> 'd list"
  getTIC :: "'d list \<times> 'd list"

record 'd WiffFile =
  getSampleCount :: int
  getPeriodCount :: "int \<Rightarrow> int"
  getExperimentCount :: "int \<Rightarrow> int \<Rightarrow> int"
  getExperiment :: "int \<Rightarrow> int \<Rightarrow> int \<Rightarrow> 'd Experiment"

text \<open>
  The two ways the source prints a double: \<open>operator<<\<close> on a \<open>std::ostringstream\<close>
  and \<open>boost::lexical_cast<string>\<close>. Both are parameters.
\<close>

record 'd Formatting =
  ostream_double :: "'d \<Rightarrow> string"
  lexical_cast_double :: "'d \<Rightarrow> string"

subsection \<open>Printing integers\<close>

definition digit_char :: "nat \<Rightarrow> char" where
  "digit_char n = char_of (48 + n)"

fun string_of_nat :: "nat \<Rightarrow> string" where
  "string_of_nat n =
     (if n < 10 then [digit_char n] else string_of_nat (n div 10) @ [digit_char (n mod 10)])"

declare string_of_nat.simps [simp del]

definition string_of_int :: "int \<Rightarrow> string" where
  "string_of_int i = (if i < 0 then CHR ''-'' # string_of_nat (nat (- i)) else string_of_nat (nat i))"

text \<open>The conversion of a \<open>size_t\<close> to a 32-bit \<open>int\<close>.\<close>

definition int_of_size_t :: "nat \<Rightarrow> int" where
  "int_of_size_t n = sint (word_of_nat n :: 32 word)"

subsection \<open>Data model\<close>

datatype CVID =
    CVID_Unknown
  | MS_TIC_chromatogram
  | MS_SRM_chromatogram
  | MS_dwell_time
  | MS_isolation_window_target_m_z
  | MS_CID
  | MS_collision_energy
  | MS_m_z
  | UO_minute
  | MS_number_of_counts

record ChromatogramIdentity =
  index :: nat
  id_str :: string

record 'd IndexEntry = ChromatogramIdentity +
  chromatogramType :: CVID
  sample :: int
  period :: int
  "experiment" :: int
  transition :: int
  q1 :: 'd
  q3 :: 'd

text \<open>A controlled-vocabulary parameter: the term, an optional value, the unit.\<close>

datatype 'd CVParam = CVParam CVID "'d option" CVID

record 'd Chromatogram = ChromatogramIdentity +
  cvParams :: "'d CVParam list"
  defaultArrayLength :: nat
  precursor_isolationWindow :: "'d CVParam list"
  precursor_activation :: "'d CVParam list"
  precursor_activation_userParams :: "(string \<times> string \<times> string) list"
  product_isolationWindow :: "'d CVParam list"
  arrayUnits :: "(CVID \<times> CVID) option"
  timeArray :: "'d list"
  intensityArray :: "'d list"

datatype error =
    runtime_error string
  | out_of_bounds_read nat

text \<open>
  The catalog object. \<open>msd_\<close> is a reference no member function reads; it is left out.
  The members carry the suffix \<open>_m\<close> where the source has a trailing underscore.
\<close>

record 'd ChromatogramList_ABI =
  wifffile_m :: "'d WiffFile"
  sample_m :: int
  size_m :: nat
  indexInitialized_m :: bool
  index_m :: "'d IndexEntry list"
  idToIndexMap_m :: "string \<rightharpoonup> nat"

definition ChromatogramList_ABI_ctor :: "'d WiffFile \<Rightarrow> int \<Rightarrow> 'd ChromatogramList_ABI" where
  "ChromatogramList_ABI_ctor wifffile smp =
     \<lparr>wifffile_m = wifffile, sample_m = smp, size_m = 0, indexInitialized_m = False,
      index_m = [], idToIndexMap_m = Map.empty\<rparr>"

subsection \<open>createIndex\<close>

text \<open>\<open>IndexEntry()\<close>: a value-initialised entry.\<close>

definition IndexEntry_new :: "'d::zero IndexEntry" where
  "IndexEntry_new =
     \<lparr>index = 0, id_str = [], chromatogramType = CVID_Unknown, sample = 0, period = 0,
      experiment = 0, transition = 0, q1 = 0, q3 = 0\<rparr>"

text \<open>
  Lines 200 to 204: push a fresh entry, then fill it in through the reference
  \<open>index_.back()\<close>; \<open>index_.size()-1\<close> is read after the push.
\<close>

definition push_back_TIC :: "'d::zero IndexEntry list \<Rightarrow> 'd IndexEntry list" where
  "push_back_TIC ix =
     ix @ [IndexEntry_new
             \<lparr>index := length (ix @ [IndexEntry_new :: 'd IndexEntry]) - 1,
              id_str := ''TIC'',
              chromatogramType := MS_TIC_chromatogram\<rparr>]"

text \<open>Lines 233 to 240: the id of a transition entry.\<close>

definition SRM_id :: "'d Formatting \<Rightarrow> 'd IndexEntry \<Rightarrow> string" where
  "SRM_id F ie =
     ''SRM SIC Q1='' @ ostream_double F (q1 ie) @
     '' Q3='' @ ostream_double F (q3 ie) @
     '' sample='' @ string_of_int (sample ie) @
     '' period='' @ string_of_int (period ie) @
     '' experiment='' @ string_of_int (experiment ie) @
     '' transition='' @ string_of_int (transition ie)"

text \<open>Lines 220 to 240: the body of the innermost loop.\<close>

definition push_back_SRM ::
  "'d Formatting \<Rightarrow> int \<Rightarrow> int \<Rightarrow> int \<Rightarrow> 'd Experiment \<Rightarrow>
   'd::zero IndexEntry list \<Rightarrow> int \<Rightarrow> 'd IndexEntry list" where
  "push_back_SRM F smp ii iii msExperiment ix iiii =
     (let target = getSRM msExperiment iiii;
          ie = IndexEntry_new
                 \<lparr>chromatogramType := MS_SRM_chromatogram,
                  q1 := Q1 target,
                  q3 := Q3 target,
                  sample := smp,
                  period := ii,
                  experiment := iii,
                  transition := iiii,
                  index := length (ix @ [IndexEntry_new :: 'd IndexEntry]) - 1\<rparr>
      in ix @ [ie\<lparr>id_str := SRM_id F ie\<rparr>])"

text \<open>
  The three nested loops of lines 209 to 243. A loop \<open>for (int i = a; i <= b; ++i)\<close> runs
  over \<open>[a..b]\<close>, a loop \<open>for (int i = 0; i < n; ++i)\<close> over \<open>[0..n - 1]\<close>.
  The counters are mathematical integers: a count of \<open>INT_MAX\<close>, where \<open>++i\<close> would
  overflow, is outside the model.
\<close>

definition index_transitions ::
  "'d Formatting \<Rightarrow> int \<Rightarrow> int \<Rightarrow> int \<Rightarrow> 'd Experiment \<Rightarrow>
   'd::zero IndexEntry list \<Rightarrow> 'd IndexEntry list" where
  "index_transitions F smp ii iii msExperiment ix =
     foldl (push_back_SRM F smp ii iii msExperiment) ix
       [0..int_of_size_t (getSRMSize msExperiment) - 1]"

definition index_experiments ::
  "'d Formatting \<Rightarrow> 'd WiffFile \<Rightarrow> int \<Rightarrow> int \<Rightarrow>
   'd::zero IndexEntry list \<Rightarrow> 'd IndexEntry list" where
  "index_experiments F w smp ii ix =
     foldl (\<lambda>ix iii. index_transitions F smp ii iii (getExperiment w smp ii iii) ix) ix
       [1..getExperimentCount w smp ii]"

definition index_periods ::
  "'d Formatting \<Rightarrow> 'd WiffFile \<Rightarrow> int \<Rightarrow> 'd::zero IndexEntry list \<Rightarrow> 'd IndexEntry list" where
  "index_periods F w smp ix =
     foldl (\<lambda>ix ii. index_experiments F w smp ii ix) ix [1..getPeriodCount w smp]"

definition createIndex ::
  "'d Formatting \<Rightarrow> 'd::zero ChromatogramList_ABI \<Rightarrow> 'd ChromatogramList_ABI" where
  "createIndex F this =
     (let ix = push_back_TIC (index_m this);
          ix = index_periods F (wifffile_m this) (sample_m this) ix
      in this\<lparr>index_m := ix, size_m := length ix\<rparr>)"

text \<open>
  \<open>boost::call_once(indexInitialized_, createIndex)\<close>, seen from one thread: createIndex
  runs if the flag is not yet set, and the flag is set.
\<close>

definition call_once ::
  "'d Formatting \<Rightarrow> 'd::zero ChromatogramList_ABI \<Rightarrow> 'd ChromatogramList_ABI" where
  "call_once F this =
     (if indexInitialized_m this then this
      else (createIndex F this)\<lparr>indexInitialized_m := True\<rparr>)"

subsection \<open>size, chromatogramIdentity, find\<close>

text \<open>
  Every public member function returns its result together with the catalog object,
  whose mutable members the call may have filled in.
\<close>

definition size_ABI ::
  "'d Formatting \<Rightarrow> 'd::zero ChromatogramList_ABI \<Rightarrow> nat \<times> 'd ChromatogramList_ABI" where
  "size_ABI F this = (let this = call_once F this in (size_m this, this))"

text \<open>
  \<open>index_[index]\<close> on a \<open>std::vector\<close>: reading at or past the end is undefined
  behaviour, here the result \<open>out_of_bounds_read\<close>.
\<close>

definition vector_at :: "'a list \<Rightarrow> nat \<Rightarrow> error + 'a" where
  "vector_at v i = (if i < length v then Inr (v ! i) else Inl (out_of_bounds_read i))"

definition chromatogramIdentity ::
  "'d Formatting \<Rightarrow> 'd::zero ChromatogramList_ABI \<Rightarrow> nat \<Rightarrow>
   (error + 'd IndexEntry) \<times> 'd ChromatogramList_ABI" where
  "chromatogramIdentity F this idx =
     (let this = call_once F this in
      (if idx > size_m this
       then Inl (runtime_error
                  (''[ChromatogramList_ABI::chromatogramIdentity()] Bad index: '' @
                   string_of_nat idx))
       else vector_at (index_m this) idx,
       this))"

definition find_ABI ::
  "'d Formatting \<Rightarrow> 'd::zero ChromatogramList_ABI \<Rightarrow> string \<Rightarrow>
   nat \<times> 'd ChromatogramList_ABI" where
  "find_ABI F this ident =
     (let this = call_once F this in
      (case idToIndexMap_m this ident of
         None \<Rightarrow> size_m this
       | Some i \<Rightarrow> i,
       this))"

subsection \<open>The map \<open>fullFileTIC\<close>\<close>

text \<open>
  A \<open>std::map<double, double>\<close> is the list of its pairs in iteration order, that is in
  strictly ascending key order. The map finds a key by \<open><\<close> alone: two keys are the same
  key when neither is less than the other.
  \<open>map_plus_assign k v m\<close> is the statement \<open>m[k] += v\<close>: \<open>operator[]\<close> inserts a
  value-initialised (zero) value where the key is absent, then \<open>v\<close> is added to it.
\<close>

fun map_plus_assign :: "'d::{linorder,zero,plus} \<Rightarrow> 'd \<Rightarrow> ('d \<times> 'd) list \<Rightarrow> ('d \<times> 'd) list" where
  "map_plus_assign k v [] = [(k, 0 + v)]"
| "map_plus_assign k v ((k', x) # m) =
     (if k < k' then (k, 0 + v) # (k', x) # m
      else if k' < k then (k', x) # map_plus_assign k v m
      else (k', x + v) # m)"

subsection \<open>chromatogram\<close>

text \<open>
  A loop whose body can fail, over the values its counter takes: the first failure ends it.
\<close>

fun for_loop :: "'a list \<Rightarrow> ('a \<Rightarrow> 's \<Rightarrow> error + 's) \<Rightarrow> 's \<Rightarrow> error + 's" where
  "for_loop [] body s = Inr s"
| "for_loop (i # is) body s =
     (case body i s of Inl e \<Rightarrow> Inl e | Inr s' \<Rightarrow> for_loop is body s')"

text \<open>
  Lines 129 to 132: one experiment's TIC is added to \<open>fullFileTIC\<close>. The loop bound is
  \<open>intensities.size()\<close> converted to \<open>int\<close>; \<open>times[iiii]\<close> and \<open>intensities[iiii]\<close> are
  unchecked vector reads.
\<close>

definition add_experiment_TIC ::
  "'d Experiment \<Rightarrow> ('d::{linorder,zero,plus} \<times> 'd) list \<Rightarrow> error + ('d \<times> 'd) list" where
  "add_experiment_TIC msExperiment fullFileTIC =
     (let (times, intensities) = getTIC msExperiment
      in for_loop [0..int_of_size_t (length intensities) - 1]
           (\<lambda>iiii m.
              case vector_at times (nat iiii) of
                Inl e \<Rightarrow> Inl e
              | Inr t \<Rightarrow>
                  (case vector_at intensities (nat iiii) of
                     Inl e \<Rightarrow> Inl e
                   | Inr y \<Rightarrow> Inr (map_plus_assign t y m)))
           fullFileTIC)"

text \<open>Lines 112 to 135: the loops over all samples, periods and experiments of the file.\<close>

definition full_file_TIC ::
  "'d WiffFile \<Rightarrow> error + ('d::{linorder,zero,plus} \<times> 'd) list" where
  "full_file_TIC w =
     for_loop [1..getSampleCount w]
       (\<lambda>i. for_loop [1..getPeriodCount w i]
          (\<lambda>ii. for_loop [1..getExperimentCount w i ii]
             (\<lambda>iii. add_experiment_TIC (getExperiment w i ii iii))))
       []"

text \<open>
  The parts of the record model the function uses. A fresh \<open>Chromatogram\<close> is empty;
  \<open>ParamContainer::set\<close> is called at most once for each term of a container, where it
  appends the parameter; \<open>setTimeIntensityArrays\<close> installs the two arrays with their
  units and sets \<open>defaultArrayLength\<close> to the length of the time array.
\<close>

definition Chromatogram_new :: "'d Chromatogram" where
  "Chromatogram_new =
     \<lparr>index = 0, id_str = [], cvParams = [], defaultArrayLength = 0,
      precursor_isolationWindow = [], precursor_activation = [],
      precursor_activation_userParams = [], product_isolationWindow = [],
      arrayUnits = None, timeArray = [], intensityArray = []\<rparr>"

definition setTimeIntensityArrays ::
  "'d list \<Rightarrow> 'd list \<Rightarrow> CVID \<Rightarrow> CVID \<Rightarrow> 'd Chromatogram \<Rightarrow> 'd Chromatogram" where
  "setTimeIntensityArrays ts ys timeUnits intensityUnits c =
     c\<lparr>arrayUnits := Some (timeUnits, intensityUnits), timeArray := ts, intensityArray := ys,
       defaultArrayLength := length ts\<rparr>"

text \<open>Lines 146 to 152: the pairs of the map are pushed onto the two arrays, in order.\<close>

definition push_back_pair :: "'d Chromatogram \<Rightarrow> 'd \<times> 'd \<Rightarrow> 'd Chromatogram" where
  "push_back_pair c itr =
     c\<lparr>timeArray := timeArray c @ [fst itr], intensityArray := intensityArray c @ [snd itr]\<rparr>"

definition chromatogram_TIC ::
  "'d WiffFile \<Rightarrow> bool \<Rightarrow> 'd::{linorder,zero,plus} Chromatogram \<Rightarrow> error + 'd Chromatogram" where
  "chromatogram_TIC w getBinaryData result =
     (case full_file_TIC w of
        Inl e \<Rightarrow> Inl e
      | Inr fullFileTIC \<Rightarrow>
          (let result = setTimeIntensityArrays [] [] UO_minute MS_number_of_counts result;
               result = (if getBinaryData then foldl push_back_pair result fullFileTIC
                         else result)
           in Inr (result\<lparr>defaultArrayLength := length fullFileTIC\<rparr>)))"

definition chromatogram_SRM ::
  "'d Formatting \<Rightarrow> 'd WiffFile \<Rightarrow> 'd IndexEntry \<Rightarrow> bool \<Rightarrow> 'd Chromatogram \<Rightarrow>
   error + 'd Chromatogram" where
  "chromatogram_SRM F w ie getBinaryData result =
     (let experiment = getExperiment w (sample ie) (period ie) (experiment ie);
          target = getSRM experiment (transition ie);
          result = result
            \<lparr>cvParams := cvParams result @ [CVParam MS_dwell_time (Some (dwellTime target)) CVID_Unknown],
             precursor_isolationWindow :=
               [CVParam MS_isolation_window_target_m_z (Some (q1 ie)) MS_m_z],
             precursor_activation :=
               [CVParam MS_CID None CVID_Unknown,
                CVParam MS_collision_energy (Some (collisionEnergy target)) CVID_Unknown],
             precursor_activation_userParams :=
               [(''MS_declustering_potential'',
                 lexical_cast_double F (declusteringPotential target), ''xs:float'')],
             product_isolationWindow :=
               [CVParam MS_isolation_window_target_m_z (Some (q3 ie)) MS_m_z]\<rparr>;
          result = setTimeIntensityArrays [] [] UO_minute MS_number_of_counts result;
          (times, intensities) = getSIC experiment (transition ie);
          result = result\<lparr>defaultArrayLength := length times\<rparr>
      in Inr (if getBinaryData
              then result\<lparr>timeArray := times, intensityArray := intensities\<rparr>
              else result))"

text \<open>
  Lines 90 to 195. The allocation check of line 101 cannot fire (\<open>new\<close> throws instead of
  returning null) and is left out. The \<open>switch\<close> has no default: an entry of another kind
  is returned with its identity only.
\<close>

definition chromatogram ::
  "'d Formatting \<Rightarrow> 'd::{linorder,zero,plus} ChromatogramList_ABI \<Rightarrow> nat \<Rightarrow> bool \<Rightarrow>
   (error + 'd Chromatogram) \<times> 'd ChromatogramList_ABI" where
  "chromatogram F this idx getBinaryData =
     (let this = call_once F this in
      (if idx > size_m this
       then Inl (runtime_error
                  (''[ChromatogramList_ABI::chromatogram()] Bad index: '' @ string_of_nat idx))
       else
         (case vector_at (index_m this) idx of
            Inl e \<Rightarrow> Inl e
          | Inr ie \<Rightarrow>
              (let result = Chromatogram_new
                     \<lparr>index := idx, id_str := id_str ie,
                      cvParams := [CVParam (chromatogramType ie) None CVID_Unknown]\<rparr>
               in case chromatogramType ie of
                    MS_TIC_chromatogram \<Rightarrow> chromatogram_TIC (wifffile_m this) getBinaryData result
                  | MS_SRM_chromatogram \<Rightarrow>
                      chromatogram_SRM F (wifffile_m this) ie getBinaryData result
                  | _ \<Rightarrow> Inr result)),
       this))"

subsection \<open>Catalog objects, source data and fixtures\<close>

text \<open>
  The index that createIndex builds on a freshly constructed catalog, and the states a
  catalog over the file \<open>w\<close> bound to the sample \<open>smp\<close> can be in: as constructed, and
  after its first public call.
\<close>

definition catalog_index :: "'d Formatting \<Rightarrow> 'd::zero WiffFile \<Rightarrow> int \<Rightarrow> 'd IndexEntry list" where
  "catalog_index F w smp = index_periods F w smp (push_back_TIC [])"

definition catalog_states ::
  "'d Formatting \<Rightarrow> 'd::zero WiffFile \<Rightarrow> int \<Rightarrow> 'd ChromatogramList_ABI set" where
  "catalog_states F w smp =
     {ChromatogramList_ABI_ctor w smp, call_once F (ChromatogramList_ABI_ctor w smp)}"

text \<open>
  The experiments of the whole file, in the order in which the loops of lines 115 to 135
  reach them, and the (time, intensity) points they report, in that order.
\<close>

definition all_experiments :: "'d WiffFile \<Rightarrow> 'd Experiment list" where
  "all_experiments w =
     [getExperiment w i ii iii.
        i \<leftarrow> [1..getSampleCount w],
        ii \<leftarrow> [1..getPeriodCount w i],
        iii \<leftarrow> [1..getExperimentCount w i ii]]"

definition TIC_points :: "'d WiffFile \<Rightarrow> ('d \<times> 'd) list" where
  "TIC_points w =
     concat (map (\<lambda>e. zip (fst (getTIC e)) (snd (getTIC e))) (all_experiments w))"

text \<open>
  Two conditions on what \<open>getTIC\<close> returns. Readable: the loop of line 131 stays inside
  the vector \<open>times\<close>. Paired: the two vectors have the same length, which fits an \<open>int\<close>.
\<close>

definition TIC_readable :: "'d WiffFile \<Rightarrow> bool" where
  "TIC_readable w =
     list_all (\<lambda>e. int_of_size_t (length (snd (getTIC e))) \<le> int (length (fst (getTIC e))))
       (all_experiments w)"

definition TIC_paired :: "'d WiffFile \<Rightarrow> bool" where
  "TIC_paired w =
     list_all (\<lambda>e. length (fst (getTIC e)) = length (snd (getTIC e)) \<and>
                    length (snd (getTIC e)) < 2 ^ 31)
       (all_experiments w)"

text \<open>
  The points the loop of line 131 reads from one experiment, and the value a map holds at
  a key, zero where the key is absent (what \<open>operator[]\<close> would insert).
\<close>

definition read_points :: "'d Experiment \<Rightarrow> ('d \<times> 'd) list" where
  "read_points e =
     map (\<lambda>iiii. (fst (getTIC e) ! nat iiii, snd (getTIC e) ! nat iiii))
       [0..int_of_size_t (length (snd (getTIC e))) - 1]"

definition value_at :: "('d \<times> 'd::zero) list \<Rightarrow> 'd \<Rightarrow> 'd" where
  "value_at m t = (case map_of m t of None \<Rightarrow> 0 | Some x \<Rightarrow> x)"

text \<open>
  Fixtures. An experiment with the given TIC vectors and \<open>n\<close> transitions, each with
  Q1 = 400 and Q3 = 200; a file whose sample has no period; a file with two samples, where
  two experiments of sample 1 report the intensities 5 and 7 at the time 1.23.
\<close>

definition fixture_format :: "real Formatting" where
  "fixture_format =
     \<lparr>ostream_double = (\<lambda>x. if x = 400 then ''400'' else if x = 200 then ''200'' else ''?''),
      lexical_cast_double = (\<lambda>x. if x = 30 then ''30'' else ''?'')\<rparr>"

definition fixture_experiment :: "real list \<Rightarrow> real list \<Rightarrow> nat \<Rightarrow> real Experiment" where
  "fixture_experiment ts ys n =
     \<lparr>getSRMSize = n,
      getSRM = (\<lambda>i. \<lparr>Q1 = 400, Q3 = 200, dwellTime = 1 / 10, collisionEnergy = 25,
                     declusteringPotential = 30\<rparr>),
      getSIC = (\<lambda>i. ([1, 2, 3], [10, 20, 30])),
      getTIC = (ts, ys)\<rparr>"

definition fixture_empty :: "real WiffFile" where
  "fixture_empty =
     \<lparr>getSampleCount = 1, getPeriodCount = (\<lambda>i. 0), getExperimentCount = (\<lambda>i ii. 0),
      getExperiment = (\<lambda>i ii iii. fixture_experiment [] [] 0)\<rparr>"

definition fixture_wiff :: "real WiffFile" where
  "fixture_wiff =
     \<lparr>getSampleCount = 2, getPeriodCount = (\<lambda>i. 1),
      getExperimentCount = (\<lambda>i ii. if i = 1 then 2 else 1),
      getExperiment = (\<lambda>i ii iii.
         if i = 1 then (if iii = 1 then fixture_experiment [123 / 100] [5] 1
                        else fixture_experiment [123 / 100, 5 / 2] [7, 1] 0)
         else fixture_experiment [1 / 2] [3] 0)\<rparr>"

text \<open>
  What a transition entry is expected to hold, its position apart: the coordinates of the
  transition, its target masses and the id built from the fixed template.
\<close>

definition SRM_entry ::
  "'d Formatting \<Rightarrow> int \<Rightarrow> int \<Rightarrow> int \<Rightarrow> int \<Rightarrow> 'd Target \<Rightarrow> 'd IndexEntry" where
  "SRM_entry F smp ii iii iiii target =
     \<lparr>index = 0,
      id_str = ''SRM SIC Q1='' @ ostream_double F (Q1 target) @
               '' Q3='' @ ostream_double F (Q3 target) @
               '' sample='' @ string_of_int smp @
               '' period='' @ string_of_int ii @
               '' experiment='' @ string_of_int iii @
               '' transition='' @ string_of_int iiii,
      chromatogramType = MS_SRM_chromatogram, sample = smp, period = ii, experiment = iii,
      transition = iiii, q1 = Q1 target, q3 = Q3 target\<rparr>"

section \<open>Properties\<close>

subsection \<open>One-time construction\<close>

lemma call_once_ctor:
  "call_once F (ChromatogramList_ABI_ctor w smp) =
     \<lparr>wifffile_m = w, sample_m = smp, size_m = length (catalog_index F w smp),
      indexInitialized_m = True, index_m = catalog_index F w smp, idToIndexMap_m = Map.empty\<rparr>"
  by (simp add: call_once_def ChromatogramList_ABI_ctor_def createIndex_def catalog_index_def Let_def)

lemma call_once_idem: "call_once F (call_once F this) = call_once F this"
  by (simp add: call_once_def)

lemma call_once_catalog:
  assumes "this \<in> catalog_states F w smp"
  shows "call_once F this =
     \<lparr>wifffile_m = w, sample_m = smp, size_m = length (catalog_index F w smp),
      indexInitialized_m = True, index_m = catalog_index F w smp, idToIndexMap_m = Map.empty\<rparr>"
  using assms call_once_ctor [of F w smp] call_once_idem [of F "ChromatogramList_ABI_ctor w smp"]
  by (auto simp: catalog_states_def)

text \<open>Every public call leaves the catalog in one of its two states.\<close>

lemma catalog_states_closed:
  assumes "this \<in> catalog_states F w smp"
  shows "snd (size_ABI F this) \<in> catalog_states F w smp"
    and "snd (chromatogramIdentity F this idx) \<in> catalog_states F w smp"
    and "snd (find_ABI F this ident) \<in> catalog_states F w smp"
    and "snd (chromatogram F this idx b) \<in> catalog_states F w smp"
  using call_once_catalog [OF assms] call_once_ctor [of F w smp]
  by (simp_all add: size_ABI_def chromatogramIdentity_def find_ABI_def chromatogram_def
      catalog_states_def Let_def)

lemma ctor_in_catalog_states: "ChromatogramList_ABI_ctor w smp \<in> catalog_states F w smp"
  by (simp add: catalog_states_def)

subsection \<open>Lookup by id\<close>

text \<open>
  C3. createIndex leaves the id-to-position map as it finds it, and the constructor leaves
  it empty: after any call of find the map has no entry, and find returns size() for every
  id, the ids of the indexed entries included.
\<close>

theorem find_returns_size:
  assumes "this \<in> catalog_states F w smp"
  shows "idToIndexMap_m (createIndex F this) = idToIndexMap_m this \<and>
         idToIndexMap_m (snd (find_ABI F this ident)) = Map.empty \<and>
         fst (find_ABI F this ident) = fst (size_ABI F this)"
  using call_once_catalog [OF assms]
  by (simp add: find_ABI_def size_ABI_def createIndex_def Let_def)

theorem find_returns_size_witness:
  "ChromatogramList_ABI_ctor fixture_wiff 1 \<in> catalog_states fixture_format fixture_wiff 1 \<and>
   fst (find_ABI fixture_format (ChromatogramList_ABI_ctor fixture_wiff 1) ''TIC'') = 2 \<and>
   fst (size_ABI fixture_format (ChromatogramList_ABI_ctor fixture_wiff 1)) = 2"
proof -
  have st: "ChromatogramList_ABI_ctor fixture_wiff 1 \<in> catalog_states fixture_format fixture_wiff 1"
    by (rule ctor_in_catalog_states)
  have sz: "fst (size_ABI fixture_format (ChromatogramList_ABI_ctor fixture_wiff 1)) = 2"
    by code_simp
  show ?thesis
    using st sz find_returns_size [OF st, of "''TIC''"] by simp
qed

text \<open>
  C9. For an id that no entry of the index carries, find returns size(); find has no
  failing branch.
\<close>

theorem find_unassigned_id:
  assumes "this \<in> catalog_states F w smp"
    and "ident \<notin> id_str ` set (index_m (snd (size_ABI F this)))"
  shows "fst (find_ABI F this ident) = fst (size_ABI F this)"
  using call_once_catalog [OF assms(1)]
  by (simp add: find_ABI_def size_ABI_def Let_def)

theorem find_unassigned_id_witness:
  "ChromatogramList_ABI_ctor fixture_wiff 1 \<in> catalog_states fixture_format fixture_wiff 1 \<and>
   ''no such id'' \<notin>
     id_str ` set (index_m (snd (size_ABI fixture_format (ChromatogramList_ABI_ctor fixture_wiff 1)))) \<and>
   fst (find_ABI fixture_format (ChromatogramList_ABI_ctor fixture_wiff 1) ''no such id'') = 2"
proof -
  have st: "ChromatogramList_ABI_ctor fixture_wiff 1 \<in> catalog_states fixture_format fixture_wiff 1"
    by (rule ctor_in_catalog_states)
  have no: "''no such id'' \<notin>
     id_str ` set (index_m (snd (size_ABI fixture_format (ChromatogramList_ABI_ctor fixture_wiff 1))))"
    by code_simp
  have sz: "fst (size_ABI fixture_format (ChromatogramList_ABI_ctor fixture_wiff 1)) = 2"
    by code_simp
  show ?thesis
    using st no sz find_unassigned_id [OF st no] by simp
qed

subsection \<open>Loops and conversions\<close>

lemma int_of_size_t_small: "n < 2 ^ 31 \<Longrightarrow> int_of_size_t n = int n"
proof -
  assume n: "n < 2 ^ 31"
  have "int n < 2 ^ 31" using n by (metis of_nat_less_iff of_nat_numeral of_nat_power)
  then have "signed_take_bit 31 (int n) = int n"
    by (intro signed_take_bit_int_eq_self) simp_all
  then show ?thesis
    using sint_sbintrunc' [of "int n", where 'a = 32]
    by (simp add: int_of_size_t_def)
qed

lemma upto_map_int: "[0..int n - 1] = map int [0..<n]"
proof (induction n)
  case 0
  show ?case by simp
next
  case (Suc n)
  have "[0..int (Suc n) - 1] = [0..int n - 1] @ [int n]"
    using upto_rec2 [of 0 "int n"] by simp
  with Suc show ?case by simp
qed

lemma foldl_proj:
  assumes "\<And>ix x. x \<in> set xs \<Longrightarrow> P (body ix x) = P ix @ g x"
  shows "P (foldl body ix xs) = P ix @ concat (map g xs)"
  using assms by (induction xs arbitrary: ix) simp_all

lemma foldl_inv:
  assumes "\<And>ix x. Q ix \<Longrightarrow> Q (body ix x)" and "Q ix"
  shows "Q (foldl body ix xs)"
  using assms by (induction xs arbitrary: ix) simp_all

subsection \<open>Positions of the entries\<close>

text \<open>Every push stores \<open>index_.size()-1\<close>, so the positions stored are \<open>0, 1, 2, \<dots>\<close>\<close>

lemma positions_push_back_TIC:
  "map index ix = [0..<length ix] \<Longrightarrow>
   map index (push_back_TIC ix) = [0..<length (push_back_TIC ix)]"
  by (simp add: push_back_TIC_def)

lemma positions_push_back_SRM:
  "map index ix = [0..<length ix] \<Longrightarrow>
   map index (push_back_SRM F smp ii iii e ix iiii) =
     [0..<length (push_back_SRM F smp ii iii e ix iiii)]"
  by (simp add: push_back_SRM_def Let_def)

lemma positions_index_transitions:
  "map index ix = [0..<length ix] \<Longrightarrow>
   map index (index_transitions F smp ii iii e ix) =
     [0..<length (index_transitions F smp ii iii e ix)]"
  unfolding index_transitions_def
  by (rule foldl_inv [where Q = "\<lambda>ix. map index ix = [0..<length ix]"])
     (rule positions_push_back_SRM)

lemma positions_index_experiments:
  "map index ix = [0..<length ix] \<Longrightarrow>
   map index (index_experiments F w smp ii ix) =
     [0..<length (index_experiments F w smp ii ix)]"
  unfolding index_experiments_def
  by (rule foldl_inv [where Q = "\<lambda>ix. map index ix = [0..<length ix]"])
     (rule positions_index_transitions)

lemma positions_index_periods:
  "map index ix = [0..<length ix] \<Longrightarrow>
   map index (index_periods F w smp ix) = [0..<length (index_periods F w smp ix)]"
  unfolding index_periods_def
  by (rule foldl_inv [where Q = "\<lambda>ix. map index ix = [0..<length ix]"])
     (rule positions_index_experiments)

lemma positions_catalog_index:
  "map index (catalog_index F w smp) = [0..<length (catalog_index F w smp)]"
  unfolding catalog_index_def
  by (rule positions_index_periods) (simp add: push_back_TIC_def)

lemma index_catalog_index:
  assumes "p < length (catalog_index F w smp)"
  shows "index (catalog_index F w smp ! p) = p"
proof -
  have "index (catalog_index F w smp ! p) = map index (catalog_index F w smp) ! p"
    using assms by simp
  also have "\<dots> = p"
    using assms by (simp add: positions_catalog_index)
  finally show ?thesis .
qed


text \<open>
  C6. For every valid position \<open>p < size()\<close>, chromatogramIdentity returns the entry at
  \<open>p\<close>, and the position stored in it is \<open>p\<close>.
\<close>

theorem identity_position:
  assumes "this \<in> catalog_states F w smp"
    and "p < fst (size_ABI F this)"
  shows "\<exists>ie. fst (chromatogramIdentity F this p) = Inr ie \<and> index ie = p"
  using assms(2) call_once_catalog [OF assms(1)] index_catalog_index [of p F w smp]
  by (simp add: chromatogramIdentity_def size_ABI_def vector_at_def Let_def)

theorem identity_position_witness:
  "ChromatogramList_ABI_ctor fixture_wiff 1 \<in> catalog_states fixture_format fixture_wiff 1 \<and>
   (1::nat) < fst (size_ABI fixture_format (ChromatogramList_ABI_ctor fixture_wiff 1)) \<and>
   (\<exists>ie. fst (chromatogramIdentity fixture_format (ChromatogramList_ABI_ctor fixture_wiff 1) 1) = Inr ie \<and>
         index ie = 1)"
proof -
  have st: "ChromatogramList_ABI_ctor fixture_wiff 1 \<in> catalog_states fixture_format fixture_wiff 1"
    by (rule ctor_in_catalog_states)
  have lt: "(1::nat) < fst (size_ABI fixture_format (ChromatogramList_ABI_ctor fixture_wiff 1))"
    by code_simp
  show ?thesis
    using st lt identity_position [OF st lt] by simp
qed

subsection \<open>The entries of the index\<close>

lemma strip_push_back_SRM:
  "map (\<lambda>ie. ie\<lparr>index := 0\<rparr>) (push_back_SRM F smp ii iii e ix iiii) =
   map (\<lambda>ie. ie\<lparr>index := 0\<rparr>) ix @ [SRM_entry F smp ii iii iiii (getSRM e iiii)]"
  by (simp add: push_back_SRM_def SRM_entry_def SRM_id_def IndexEntry_new_def Let_def)

lemma strip_index_transitions:
  "map (\<lambda>ie. ie\<lparr>index := 0\<rparr>) (index_transitions F smp ii iii e ix) =
   map (\<lambda>ie. ie\<lparr>index := 0\<rparr>) ix @
   map (\<lambda>iiii. SRM_entry F smp ii iii iiii (getSRM e iiii))
     [0..int_of_size_t (getSRMSize e) - 1]"
proof -
  have "map (\<lambda>ie. ie\<lparr>index := 0\<rparr>) (index_transitions F smp ii iii e ix) =
        map (\<lambda>ie. ie\<lparr>index := 0\<rparr>) ix @
        concat (map (\<lambda>iiii. [SRM_entry F smp ii iii iiii (getSRM e iiii)])
          [0..int_of_size_t (getSRMSize e) - 1])"
    unfolding index_transitions_def
    by (rule foldl_proj) (rule strip_push_back_SRM)
  then show ?thesis by (simp add: concat_map_singleton)
qed

lemma strip_index_experiments:
  "map (\<lambda>ie. ie\<lparr>index := 0\<rparr>) (index_experiments F w smp ii ix) =
   map (\<lambda>ie. ie\<lparr>index := 0\<rparr>) ix @
   concat (map (\<lambda>iii. map (\<lambda>iiii. SRM_entry F smp ii iii iiii (getSRM (getExperiment w smp ii iii) iiii))
                        [0..int_of_size_t (getSRMSize (getExperiment w smp ii iii)) - 1])
     [1..getExperimentCount w smp ii])"
  unfolding index_experiments_def
  by (rule foldl_proj) (rule strip_index_transitions)

lemma strip_index_periods:
  "map (\<lambda>ie. ie\<lparr>index := 0\<rparr>) (index_periods F w smp ix) =
   map (\<lambda>ie. ie\<lparr>index := 0\<rparr>) ix @
   concat (map (\<lambda>ii.
     concat (map (\<lambda>iii. map (\<lambda>iiii. SRM_entry F smp ii iii iiii (getSRM (getExperiment w smp ii iii) iiii))
                        [0..int_of_size_t (getSRMSize (getExperiment w smp ii iii)) - 1])
     [1..getExperimentCount w smp ii]))
     [1..getPeriodCount w smp])"
  unfolding index_periods_def
  by (rule foldl_proj) (rule strip_index_experiments)

lemma strip_catalog_index:
  "map (\<lambda>ie. ie\<lparr>index := 0\<rparr>) (catalog_index F w smp) =
   \<lparr>index = 0, id_str = ''TIC'', chromatogramType = MS_TIC_chromatogram, sample = 0,
    period = 0, experiment = 0, transition = 0, q1 = 0, q3 = 0\<rparr> #
   concat (map (\<lambda>ii.
     concat (map (\<lambda>iii. map (\<lambda>iiii. SRM_entry F smp ii iii iiii (getSRM (getExperiment w smp ii iii) iiii))
                        [0..int_of_size_t (getSRMSize (getExperiment w smp ii iii)) - 1])
     [1..getExperimentCount w smp ii]))
     [1..getPeriodCount w smp])"
  by (simp add: catalog_index_def strip_index_periods push_back_TIC_def IndexEntry_new_def)

lemma transitions_fit:
  assumes "\<forall>ii\<in>set [1..getPeriodCount w smp]. \<forall>iii\<in>set [1..getExperimentCount w smp ii].
             getSRMSize (getExperiment w smp ii iii) < 2 ^ 31"
  shows "concat (map (\<lambda>ii.
     concat (map (\<lambda>iii. map (f ii iii)
                        [0..int_of_size_t (getSRMSize (getExperiment w smp ii iii)) - 1])
     [1..getExperimentCount w smp ii]))
     [1..getPeriodCount w smp]) =
   concat (map (\<lambda>ii.
     concat (map (\<lambda>iii. map (f ii iii)
                        (map int [0..<getSRMSize (getExperiment w smp ii iii)]))
     [1..getExperimentCount w smp ii]))
     [1..getPeriodCount w smp])"
proof -
  have "[0..int_of_size_t (getSRMSize (getExperiment w smp ii iii)) - 1] =
        map int [0..<getSRMSize (getExperiment w smp ii iii)]"
    if "ii \<in> set [1..getPeriodCount w smp]" and "iii \<in> set [1..getExperimentCount w smp ii]"
    for ii iii
  proof -
    have "getSRMSize (getExperiment w smp ii iii) < 2 ^ 31"
      using assms that by blast
    then show ?thesis
      by (simp only: int_of_size_t_small upto_map_int)
  qed
  then show ?thesis
    by (intro arg_cong [where f = concat] map_cong refl)
qed


text \<open>
  C5. Where the transition counts fit an \<open>int\<close>: the index is the TIC entry with id
  \<open>''TIC''\<close>, then one transition entry for each transition of each experiment of
  each period of the bound sample, in the order of the nested enumeration, each with the
  id built from the template; the positions stored are \<open>0, 1, 2, \<dots>\<close>; with no
  period the TIC entry is the only one and size() is 1.
\<close>

theorem createIndex_enumeration:
  assumes "this \<in> catalog_states F w smp"
    and "\<forall>ii\<in>set [1..getPeriodCount w smp]. \<forall>iii\<in>set [1..getExperimentCount w smp ii].
           getSRMSize (getExperiment w smp ii iii) < 2 ^ 31"
  shows "map (\<lambda>ie. ie\<lparr>index := 0\<rparr>) (index_m (snd (size_ABI F this))) =
           \<lparr>index = 0, id_str = ''TIC'', chromatogramType = MS_TIC_chromatogram, sample = 0,
            period = 0, experiment = 0, transition = 0, q1 = 0, q3 = 0\<rparr> #
           [\<lparr>index = 0,
             id_str = ''SRM SIC Q1='' @ ostream_double F (Q1 (getSRM (getExperiment w smp ii iii) iiii)) @
                      '' Q3='' @ ostream_double F (Q3 (getSRM (getExperiment w smp ii iii) iiii)) @
                      '' sample='' @ string_of_int smp @
                      '' period='' @ string_of_int ii @
                      '' experiment='' @ string_of_int iii @
                      '' transition='' @ string_of_int iiii,
             chromatogramType = MS_SRM_chromatogram, sample = smp, period = ii,
             experiment = iii, transition = iiii,
             q1 = Q1 (getSRM (getExperiment w smp ii iii) iiii),
             q3 = Q3 (getSRM (getExperiment w smp ii iii) iiii)\<rparr>.
              ii \<leftarrow> [1..getPeriodCount w smp],
              iii \<leftarrow> [1..getExperimentCount w smp ii],
              iiii \<leftarrow> map int [0..<getSRMSize (getExperiment w smp ii iii)]] \<and>
         map index (index_m (snd (size_ABI F this))) = [0..<fst (size_ABI F this)] \<and>
         (getPeriodCount w smp = 0 \<longrightarrow>
            fst (size_ABI F this) = 1 \<and>
            map id_str (index_m (snd (size_ABI F this))) = [''TIC''])"
proof -
  have ix: "index_m (snd (size_ABI F this)) = catalog_index F w smp"
    and sz: "fst (size_ABI F this) = length (catalog_index F w smp)"
    using call_once_catalog [OF assms(1)] by (simp_all add: size_ABI_def Let_def)
  have entries: "map (\<lambda>ie. ie\<lparr>index := 0\<rparr>) (catalog_index F w smp) =
     \<lparr>index = 0, id_str = ''TIC'', chromatogramType = MS_TIC_chromatogram, sample = 0,
      period = 0, experiment = 0, transition = 0, q1 = 0, q3 = 0\<rparr> #
     concat (map (\<lambda>ii.
       concat (map (\<lambda>iii. map (\<lambda>iiii. SRM_entry F smp ii iii iiii (getSRM (getExperiment w smp ii iii) iiii))
                        (map int [0..<getSRMSize (getExperiment w smp ii iii)]))
       [1..getExperimentCount w smp ii]))
       [1..getPeriodCount w smp])"
    by (simp only: strip_catalog_index transitions_fit [OF assms(2)])
  have none: "catalog_index F w smp = push_back_TIC []" if "getPeriodCount w smp = 0"
    using that by (simp add: catalog_index_def index_periods_def)
  show ?thesis
    unfolding ix sz
    apply (intro conjI impI)
    subgoal using entries by (simp add: SRM_entry_def)
    subgoal by (rule positions_catalog_index)
    subgoal by (simp add: none push_back_TIC_def)
    subgoal by (simp add: none push_back_TIC_def)
    done
qed

theorem createIndex_enumeration_witness:
  "(ChromatogramList_ABI_ctor fixture_wiff 1 \<in> catalog_states fixture_format fixture_wiff 1 \<and>
    map (\<lambda>ie. ie\<lparr>index := 0\<rparr>)
      (index_m (snd (size_ABI fixture_format (ChromatogramList_ABI_ctor fixture_wiff 1)))) =
      [\<lparr>index = 0, id_str = ''TIC'', chromatogramType = MS_TIC_chromatogram, sample = 0,
        period = 0, experiment = 0, transition = 0, q1 = 0, q3 = 0\<rparr>,
       \<lparr>index = 0,
        id_str = ''SRM SIC Q1=400 Q3=200 sample=1 period=1 experiment=1 transition=0'',
        chromatogramType = MS_SRM_chromatogram, sample = 1, period = 1, experiment = 1,
        transition = 0, q1 = 400, q3 = 200\<rparr>] \<and>
    map index (index_m (snd (size_ABI fixture_format (ChromatogramList_ABI_ctor fixture_wiff 1)))) =
      [0, 1]) \<and>
   (ChromatogramList_ABI_ctor fixture_empty 1 \<in> catalog_states fixture_format fixture_empty 1 \<and>
    getPeriodCount fixture_empty 1 = 0 \<and>
    fst (size_ABI fixture_format (ChromatogramList_ABI_ctor fixture_empty 1)) = 1 \<and>
    map id_str (index_m (snd (size_ABI fixture_format (ChromatogramList_ABI_ctor fixture_empty 1)))) =
      [''TIC''])"
proof -
  have st: "ChromatogramList_ABI_ctor fixture_wiff 1 \<in> catalog_states fixture_format fixture_wiff 1"
    by (rule ctor_in_catalog_states)
  have fit: "\<forall>ii\<in>set [1..getPeriodCount fixture_wiff 1]. \<forall>iii\<in>set [1..getExperimentCount fixture_wiff 1 ii].
       getSRMSize (getExperiment fixture_wiff 1 ii iii) < 2 ^ 31"
    by (simp add: fixture_wiff_def fixture_experiment_def)
  have sz: "fst (size_ABI fixture_format (ChromatogramList_ABI_ctor fixture_wiff 1)) = 2"
    by code_simp
  have rhs: "[\<lparr>index = 0,
             id_str = ''SRM SIC Q1='' @ ostream_double fixture_format (Q1 (getSRM (getExperiment fixture_wiff 1 ii iii) iiii)) @
                      '' Q3='' @ ostream_double fixture_format (Q3 (getSRM (getExperiment fixture_wiff 1 ii iii) iiii)) @
                      '' sample='' @ string_of_int 1 @
                      '' period='' @ string_of_int ii @
                      '' experiment='' @ string_of_int iii @
                      '' transition='' @ string_of_int iiii,
             chromatogramType = MS_SRM_chromatogram, sample = 1, period = ii,
             experiment = iii, transition = iiii,
             q1 = Q1 (getSRM (getExperiment fixture_wiff 1 ii iii) iiii),
             q3 = Q3 (getSRM (getExperiment fixture_wiff 1 ii iii) iiii)\<rparr>.
              ii \<leftarrow> [1..getPeriodCount fixture_wiff 1],
              iii \<leftarrow> [1..getExperimentCount fixture_wiff 1 ii],
              iiii \<leftarrow> map int [0..<getSRMSize (getExperiment fixture_wiff 1 ii iii)]] =
       [\<lparr>index = 0,
        id_str = ''SRM SIC Q1=400 Q3=200 sample=1 period=1 experiment=1 transition=0'',
        chromatogramType = MS_SRM_chromatogram, sample = 1, period = 1, experiment = 1,
        transition = 0, q1 = (400::real), q3 = 200\<rparr>]"
    by code_simp
  have st0: "ChromatogramList_ABI_ctor fixture_empty 1 \<in> catalog_states fixture_format fixture_empty 1"
    by (rule ctor_in_catalog_states)
  have fit0: "\<forall>ii\<in>set [1..getPeriodCount fixture_empty 1]. \<forall>iii\<in>set [1..getExperimentCount fixture_empty 1 ii].
       getSRMSize (getExperiment fixture_empty 1 ii iii) < 2 ^ 31"
    by (simp add: fixture_empty_def)
  have none: "getPeriodCount fixture_empty 1 = 0"
    by (simp add: fixture_empty_def)
  note T = createIndex_enumeration [OF st fit]
  note T0 = createIndex_enumeration [OF st0 fit0]
  have a: "map (\<lambda>ie. ie\<lparr>index := 0\<rparr>)
      (index_m (snd (size_ABI fixture_format (ChromatogramList_ABI_ctor fixture_wiff 1)))) =
      [\<lparr>index = 0, id_str = ''TIC'', chromatogramType = MS_TIC_chromatogram, sample = 0,
        period = 0, experiment = 0, transition = 0, q1 = 0, q3 = 0\<rparr>,
       \<lparr>index = 0,
        id_str = ''SRM SIC Q1=400 Q3=200 sample=1 period=1 experiment=1 transition=0'',
        chromatogramType = MS_SRM_chromatogram, sample = 1, period = 1, experiment = 1,
        transition = 0, q1 = 400, q3 = 200\<rparr>]"
    using T [THEN conjunct1] unfolding rhs .
  have upt2: "[0..<2] = [0, Suc 0]" by code_simp
  have b: "map index (index_m (snd (size_ABI fixture_format (ChromatogramList_ABI_ctor fixture_wiff 1)))) =
      [0, 1]"
    using T [THEN conjunct2, THEN conjunct1] unfolding sz upt2 by simp
  have c: "fst (size_ABI fixture_format (ChromatogramList_ABI_ctor fixture_empty 1)) = 1 \<and>
    map id_str (index_m (snd (size_ABI fixture_format (ChromatogramList_ABI_ctor fixture_empty 1)))) =
      [''TIC'']"
    using T0 [THEN conjunct2, THEN conjunct2] none by blast
  show ?thesis
    using st a b st0 none c by blast
qed

subsection \<open>The map: keys in ascending order, values summed\<close>

lemma fst_map_plus_assign:
  "fst ` set (map_plus_assign k v m) = insert k (fst ` set m)"
proof (induction m)
  case Nil
  show ?case by simp
next
  case (Cons p m)
  obtain k' x where p: "p = (k', x)" by (cases p)
  consider "k < k'" | "k' < k" | "k = k'" by (rule linorder_cases)
  then show ?case
  proof cases
    case 1
    then show ?thesis by (simp add: p)
  next
    case 2
    then have "\<not> k < k'" by simp
    with 2 Cons.IH show ?thesis by (simp add: p insert_commute)
  next
    case 3
    then show ?thesis by (simp add: p)
  qed
qed

lemma sorted_map_plus_assign:
  "sorted_wrt (<) (map fst m) \<Longrightarrow> sorted_wrt (<) (map fst (map_plus_assign k v m))"
proof (induction m)
  case Nil
  show ?case by simp
next
  case (Cons p m)
  obtain k' x where p: "p = (k', x)" by (cases p)
  from Cons.prems have below: "\<forall>a\<in>set (map fst m). k' < a" and rest: "sorted_wrt (<) (map fst m)"
    by (simp_all add: p)
  show ?case
  proof (cases "k < k'")
    case True
    with Cons.prems show ?thesis by (auto simp: p)
  next
    case False
    show ?thesis
    proof (cases "k' < k")
      case True
      have "\<forall>a\<in>set (map fst (map_plus_assign k v m)). k' < a"
        using below True by (simp add: fst_map_plus_assign)
      with Cons.IH [OF rest] True \<open>\<not> k < k'\<close> show ?thesis
        by (simp add: p)
    next
      case False
      with Cons.prems \<open>\<not> k < k'\<close> show ?thesis by (simp add: p)
    qed
  qed
qed

lemma map_of_map_plus_assign:
  "sorted_wrt (<) (map fst m) \<Longrightarrow>
   map_of (map_plus_assign k v m) = (map_of m)(k \<mapsto> value_at m k + v)"
proof (induction m)
  case Nil
  show ?case by (simp add: value_at_def)
next
  case (Cons p m)
  obtain k' x where p: "p = (k', x)" by (cases p)
  from Cons.prems have below: "\<forall>a\<in>set (map fst m). k' < a" and rest: "sorted_wrt (<) (map fst m)"
    by (simp_all add: p)
  have absent: "map_of m t = None" if "t \<le> k'" for t
  proof -
    have "t \<notin> fst ` set m" using below that by auto
    then show ?thesis by (simp add: map_of_eq_None_iff)
  qed
  show ?case
  proof (cases "k < k'")
    case True
    then show ?thesis
      by (auto simp: p value_at_def absent fun_eq_iff)
  next
    case False
    show ?thesis
    proof (cases "k' < k")
      case True
      with Cons.IH [OF rest] show ?thesis
        by (auto simp: p value_at_def fun_eq_iff)
    next
      case False
      with \<open>\<not> k < k'\<close> have "k = k'" by simp
      then show ?thesis
        by (auto simp: p value_at_def fun_eq_iff)
    qed
  qed
qed


lemma sorted_fold_map_plus_assign:
  "sorted_wrt (<) (map fst m) \<Longrightarrow>
   sorted_wrt (<) (map fst (fold (\<lambda>p. map_plus_assign (fst p) (snd p)) pts m))"
  by (induction pts arbitrary: m) (simp_all add: sorted_map_plus_assign)

lemma value_at_map_plus_assign:
  "sorted_wrt (<) (map fst m) \<Longrightarrow>
   value_at (map_plus_assign k v m) t = (if t = k then value_at m k + v else value_at m t)"
  by (simp add: value_at_def map_of_map_plus_assign)

lemma map_of_fold_map_plus_assign:
  "sorted_wrt (<) (map fst m) \<Longrightarrow>
   map_of (fold (\<lambda>p. map_plus_assign (fst p) (snd p)) pts m) t =
     (if t \<in> fst ` set pts
      then Some (foldl (+) (value_at m t) (map snd (filter (\<lambda>p. fst p = t) pts)))
      else map_of m t)"
proof (induction pts arbitrary: m)
  case Nil
  show ?case by simp
next
  case (Cons p pts)
  let ?m = "map_plus_assign (fst p) (snd p) m"
  have sorted: "sorted_wrt (<) (map fst ?m)"
    using Cons.prems by (rule sorted_map_plus_assign)
  have step: "map_of (fold (\<lambda>p. map_plus_assign (fst p) (snd p)) (p # pts) m) t =
     (if t \<in> fst ` set pts
      then Some (foldl (+) (value_at ?m t) (map snd (filter (\<lambda>p. fst p = t) pts)))
      else map_of ?m t)"
    using Cons.IH [OF sorted] by simp
  show ?case
  proof (cases "t = fst p")
    case True
    have none: "filter (\<lambda>p. fst p = t) pts = []" if "t \<notin> fst ` set pts"
      using that by (auto simp: filter_empty_conv)
    show ?thesis
      unfolding step
      using True Cons.prems none
      by (simp add: value_at_map_plus_assign map_of_map_plus_assign)
  next
    case False
    then show ?thesis
      unfolding step
      using Cons.prems
      by (auto simp: value_at_map_plus_assign map_of_map_plus_assign)
  qed
qed

subsection \<open>Loops that can fail\<close>

lemma for_loop_append:
  "for_loop (xs @ ys) body s =
     (case for_loop xs body s of Inl e \<Rightarrow> Inl e | Inr s' \<Rightarrow> for_loop ys body s')"
  by (induction xs arbitrary: s) (simp_all split: sum.splits)

lemma for_loop_map: "for_loop (map g xs) body s = for_loop xs (\<lambda>x. body (g x)) s"
  by (induction xs arbitrary: s) (simp_all split: sum.splits)

lemma for_loop_concat:
  "for_loop (concat xss) body s = for_loop xss (\<lambda>xs. for_loop xs body) s"
  by (induction xss arbitrary: s) (simp_all add: for_loop_append split: sum.splits)

lemma for_loop_total:
  assumes "\<And>x s. x \<in> set xs \<Longrightarrow> body x s = Inr (f x s)"
  shows "for_loop xs body s = Inr (fold f xs s)"
  using assms by (induction xs arbitrary: s) simp_all

lemma for_loop_nested:
  "for_loop xs (\<lambda>x. for_loop (map (g x) (ys x)) body) =
     for_loop xs (\<lambda>x. for_loop (ys x) (\<lambda>y. body (g x y)))"
  "for_loop xs (\<lambda>x. for_loop (concat (map (h x) (ys x))) body) =
     for_loop xs (\<lambda>x. for_loop (ys x) (\<lambda>y. for_loop (h x y) body))"
proof -
  have "(\<lambda>x. for_loop (map (g x) (ys x)) body) = (\<lambda>x. for_loop (ys x) (\<lambda>y. body (g x y)))"
    by (intro ext) (simp add: for_loop_map)
  then show "for_loop xs (\<lambda>x. for_loop (map (g x) (ys x)) body) =
     for_loop xs (\<lambda>x. for_loop (ys x) (\<lambda>y. body (g x y)))"
    by simp
  have "(\<lambda>x. for_loop (concat (map (h x) (ys x))) body) =
        (\<lambda>x. for_loop (ys x) (\<lambda>y. for_loop (h x y) body))"
    by (intro ext) (simp add: for_loop_concat for_loop_map)
  then show "for_loop xs (\<lambda>x. for_loop (concat (map (h x) (ys x))) body) =
     for_loop xs (\<lambda>x. for_loop (ys x) (\<lambda>y. for_loop (h x y) body))"
    by simp
qed

lemma full_file_TIC_flat: "full_file_TIC w = for_loop (all_experiments w) add_experiment_TIC []"
  unfolding full_file_TIC_def all_experiments_def
  by (simp only: for_loop_concat for_loop_map for_loop_nested)

lemma int_of_size_t_le: "int_of_size_t n \<le> int n"
proof -
  have "- (2 ^ 31) \<le> int n"
    by (rule order_trans [of _ 0]) simp_all
  then have "signed_take_bit 31 (int n) \<le> int n"
    by (simp only: signed_take_bit_int_less_eq_self_iff)
  then show ?thesis
    using sint_sbintrunc' [of "int n", where 'a = 32]
    by (simp add: int_of_size_t_def)
qed

subsection \<open>One experiment, all experiments\<close>

lemma add_experiment_TIC_readable:
  assumes "int_of_size_t (length (snd (getTIC e))) \<le> int (length (fst (getTIC e)))"
  shows "add_experiment_TIC e m =
           Inr (fold (\<lambda>p. map_plus_assign (fst p) (snd p)) (read_points e) m)"
proof -
  obtain ts ys where tic: "getTIC e = (ts, ys)" by (cases "getTIC e")
  let ?body = "\<lambda>iiii m.
      case vector_at ts (nat iiii) of
        Inl e \<Rightarrow> Inl e
      | Inr t \<Rightarrow>
          (case vector_at ys (nat iiii) of
             Inl e \<Rightarrow> Inl e
           | Inr y \<Rightarrow> Inr (map_plus_assign t y m))"
  have body: "?body iiii m' = Inr (map_plus_assign (ts ! nat iiii) (ys ! nat iiii) m')"
    if "iiii \<in> set [0..int_of_size_t (length ys) - 1]" for iiii m'
  proof -
    from that have lo: "0 \<le> iiii" and hi: "iiii < int_of_size_t (length ys)" by simp_all
    from hi int_of_size_t_le [of "length ys"] lo have "nat iiii < length ys" by linarith
    moreover from hi assms lo have "nat iiii < length ts" by (simp add: tic)
    ultimately show ?thesis by (simp add: vector_at_def)
  qed
  have "for_loop [0..int_of_size_t (length ys) - 1] ?body m =
        Inr (fold (\<lambda>iiii. map_plus_assign (ts ! nat iiii) (ys ! nat iiii))
               [0..int_of_size_t (length ys) - 1] m)"
    by (rule for_loop_total) (rule body)
  then show ?thesis
    by (simp add: add_experiment_TIC_def read_points_def tic fold_map o_def)
qed

lemma for_loop_experiments:
  assumes "list_all (\<lambda>e. int_of_size_t (length (snd (getTIC e))) \<le> int (length (fst (getTIC e)))) es"
  shows "for_loop es add_experiment_TIC m =
           Inr (fold (\<lambda>p. map_plus_assign (fst p) (snd p)) (concat (map read_points es)) m)"
  using assms
  by (induction es arbitrary: m) (simp_all add: add_experiment_TIC_readable)

lemma full_file_TIC_readable:
  assumes "TIC_readable w"
  shows "full_file_TIC w =
           Inr (fold (\<lambda>p. map_plus_assign (fst p) (snd p))
                  (concat (map read_points (all_experiments w))) [])"
  using assms unfolding full_file_TIC_flat TIC_readable_def
  by (rule for_loop_experiments)

lemma read_points_paired:
  assumes "length (fst (getTIC e)) = length (snd (getTIC e))"
    and "length (snd (getTIC e)) < 2 ^ 31"
  shows "read_points e = zip (fst (getTIC e)) (snd (getTIC e))"
proof -
  let ?ts = "fst (getTIC e)" and ?ys = "snd (getTIC e)"
  have "read_points e = map (\<lambda>i. (?ts ! i, ?ys ! i)) [0..<length ?ys]"
    by (simp add: read_points_def int_of_size_t_small [OF assms(2)] upto_map_int o_def)
  also have "\<dots> = zip ?ts ?ys"
    using assms(1) by (intro nth_equalityI) simp_all
  finally show ?thesis .
qed

lemma TIC_paired_readable: "TIC_paired w \<Longrightarrow> TIC_readable w"
  unfolding TIC_paired_def TIC_readable_def
  by (auto simp: list_all_iff int_of_size_t_small)

lemma read_points_TIC_paired:
  assumes "TIC_paired w"
  shows "concat (map read_points (all_experiments w)) = TIC_points w"
proof -
  have "map read_points (all_experiments w) =
        map (\<lambda>e. zip (fst (getTIC e)) (snd (getTIC e))) (all_experiments w)"
    using assms by (intro map_cong refl read_points_paired) (simp_all add: TIC_paired_def list_all_iff)
  then show ?thesis
    unfolding TIC_points_def by (rule arg_cong [where f = concat])
qed

subsection \<open>The record\<close>

lemma foldl_push_back_pair:
  "timeArray (foldl push_back_pair c m) = timeArray c @ map fst m"
  "intensityArray (foldl push_back_pair c m) = intensityArray c @ map snd m"
  "defaultArrayLength (foldl push_back_pair c m) = defaultArrayLength c"
  by (induction m arbitrary: c) (simp_all add: push_back_pair_def)

lemma chromatogram_TIC_arrays:
  assumes "full_file_TIC w = Inr m"
  shows "\<exists>c. chromatogram_TIC w getBinaryData result = Inr c \<and>
             timeArray c = (if getBinaryData then map fst m else []) \<and>
             intensityArray c = (if getBinaryData then map snd m else []) \<and>
             defaultArrayLength c = length m"
  by (simp add: chromatogram_TIC_def assms Let_def foldl_push_back_pair setTimeIntensityArrays_def)

lemma chromatogram_SRM_arrays:
  "\<exists>c. chromatogram_SRM F w ie getBinaryData result = Inr c \<and>
       timeArray c = (if getBinaryData
                      then fst (getSIC (getExperiment w (sample ie) (period ie) (experiment ie)) (transition ie))
                      else []) \<and>
       intensityArray c = (if getBinaryData
                      then snd (getSIC (getExperiment w (sample ie) (period ie) (experiment ie)) (transition ie))
                      else []) \<and>
       defaultArrayLength c =
         length (fst (getSIC (getExperiment w (sample ie) (period ie) (experiment ie)) (transition ie)))"
  by (simp add: chromatogram_SRM_def Let_def setTimeIntensityArrays_def split: prod.splits)

subsection \<open>The kinds of the entries\<close>

lemma catalog_index_head:
  "\<exists>ie rest. catalog_index F w smp = ie # rest \<and>
     chromatogramType ie = MS_TIC_chromatogram \<and> id_str ie = ''TIC'' \<and>
     (\<forall>x\<in>set rest. chromatogramType x = MS_SRM_chromatogram \<and> sample x = smp)"
proof -
  from strip_catalog_index [of F w smp]
  obtain ie rest where ci: "catalog_index F w smp = ie # rest"
    and hd: "ie\<lparr>index := 0\<rparr> =
       \<lparr>index = 0, id_str = ''TIC'', chromatogramType = MS_TIC_chromatogram, sample = 0,
        period = 0, experiment = 0, transition = 0, q1 = 0, q3 = 0\<rparr>"
    and tl: "map (\<lambda>ie. ie\<lparr>index := 0\<rparr>) rest =
       concat (map (\<lambda>ii.
         concat (map (\<lambda>iii. map (\<lambda>iiii. SRM_entry F smp ii iii iiii (getSRM (getExperiment w smp ii iii) iiii))
                        [0..int_of_size_t (getSRMSize (getExperiment w smp ii iii)) - 1])
         [1..getExperimentCount w smp ii]))
         [1..getPeriodCount w smp])"
    unfolding map_eq_Cons_conv by blast
  have "chromatogramType (ie\<lparr>index := 0\<rparr>) = MS_TIC_chromatogram"
    and "id_str (ie\<lparr>index := 0\<rparr>) = ''TIC''"
    unfolding hd by simp_all
  then have head: "chromatogramType ie = MS_TIC_chromatogram" "id_str ie = ''TIC''"
    by simp_all
  have all: "\<forall>y\<in>set (concat (map (\<lambda>ii.
         concat (map (\<lambda>iii. map (\<lambda>iiii. SRM_entry F smp ii iii iiii (getSRM (getExperiment w smp ii iii) iiii))
                        [0..int_of_size_t (getSRMSize (getExperiment w smp ii iii)) - 1])
         [1..getExperimentCount w smp ii]))
         [1..getPeriodCount w smp])).
       chromatogramType y = MS_SRM_chromatogram \<and> sample y = smp"
    by (auto simp: SRM_entry_def)
  have "chromatogramType x = MS_SRM_chromatogram \<and> sample x = smp" if "x \<in> set rest" for x
  proof -
    from that have "x\<lparr>index := 0\<rparr> \<in> (\<lambda>ie. ie\<lparr>index := 0\<rparr>) ` set rest"
      by (rule imageI)
    then have "x\<lparr>index := 0\<rparr> \<in> set (map (\<lambda>ie. ie\<lparr>index := 0\<rparr>) rest)"
      by (simp only: set_map)
    then have "chromatogramType (x\<lparr>index := 0\<rparr>) = MS_SRM_chromatogram \<and>
               sample (x\<lparr>index := 0\<rparr>) = smp"
      unfolding tl using all by blast
    then show ?thesis by simp
  qed
  with ci head show ?thesis by blast
qed

lemma chromatogram_at_0:
  assumes "this \<in> catalog_states F w smp"
  shows "fst (chromatogram F this 0 b) =
           chromatogram_TIC w b
             (Chromatogram_new\<lparr>index := 0, id_str := ''TIC'',
                cvParams := [CVParam MS_TIC_chromatogram None CVID_Unknown]\<rparr>)"
proof -
  from catalog_index_head [of F w smp]
  obtain ie rest where "catalog_index F w smp = ie # rest"
    "chromatogramType ie = MS_TIC_chromatogram" "id_str ie = ''TIC''"
    by blast
  then show ?thesis
    using call_once_catalog [OF assms]
    by (simp add: chromatogram_def vector_at_def Let_def)
qed

lemma chromatogram_at_Suc:
  assumes "this \<in> catalog_states F w smp" and "Suc n < fst (size_ABI F this)"
  shows "fst (chromatogram F this (Suc n) b) =
           chromatogram_SRM F w (catalog_index F w smp ! Suc n) b
             (Chromatogram_new\<lparr>index := Suc n, id_str := id_str (catalog_index F w smp ! Suc n),
                cvParams := [CVParam MS_SRM_chromatogram None CVID_Unknown]\<rparr>)"
proof -
  from catalog_index_head [of F w smp]
  obtain ie rest where ci: "catalog_index F w smp = ie # rest"
    and srm: "\<forall>x\<in>set rest. chromatogramType x = MS_SRM_chromatogram \<and> sample x = smp"
    by blast
  have len: "Suc n < length (catalog_index F w smp)"
    using assms(2) call_once_catalog [OF assms(1)] by (simp add: size_ABI_def Let_def)
  then have "n < length rest" by (simp add: ci)
  then have "chromatogramType (rest ! n) = MS_SRM_chromatogram"
    using srm by simp
  then have "chromatogramType (catalog_index F w smp ! Suc n) = MS_SRM_chromatogram"
    by (simp add: ci)
  then show ?thesis
    using call_once_catalog [OF assms(1)] len
    by (simp add: chromatogram_def vector_at_def Let_def)
qed

lemma keys_fold_map_plus_assign:
  "fst ` set (fold (\<lambda>p. map_plus_assign (fst p) (snd p)) pts m) =
     fst ` set pts \<union> fst ` set m"
  by (induction pts arbitrary: m) (simp_all add: fst_map_plus_assign)

lemma TIC_record_paired:
  assumes "this \<in> catalog_states F w smp" and "TIC_paired w"
  shows "\<exists>c. fst (chromatogram F this 0 True) = Inr c \<and>
     timeArray c = map fst (fold (\<lambda>p. map_plus_assign (fst p) (snd p)) (TIC_points w) []) \<and>
     intensityArray c = map snd (fold (\<lambda>p. map_plus_assign (fst p) (snd p)) (TIC_points w) [])"
proof -
  have "full_file_TIC w = Inr (fold (\<lambda>p. map_plus_assign (fst p) (snd p)) (TIC_points w) [])"
    using full_file_TIC_readable [OF TIC_paired_readable [OF assms(2)]]
    by (simp only: read_points_TIC_paired [OF assms(2)])
  from chromatogram_TIC_arrays [OF this, where getBinaryData = True and result =
      "Chromatogram_new\<lparr>index := 0, id_str := ''TIC'',
         cvParams := [CVParam MS_TIC_chromatogram None CVID_Unknown]\<rparr>"]
  show ?thesis
    unfolding chromatogram_at_0 [OF assms(1)] by auto
qed

subsection \<open>Fixture data\<close>

lemma fixture_wiff_experiments:
  "all_experiments fixture_wiff =
     [fixture_experiment [123 / 100] [5] 1,
      fixture_experiment [123 / 100, 5 / 2] [7, 1] 0,
      fixture_experiment [1 / 2] [3] 0]"
  by (simp add: all_experiments_def fixture_wiff_def upto_rec1)

lemma fixture_wiff_paired: "TIC_paired fixture_wiff"
  unfolding TIC_paired_def fixture_wiff_experiments by (simp add: fixture_experiment_def)

lemma fixture_wiff_points:
  "TIC_points fixture_wiff = [(123 / 100, 5), (123 / 100, 7), (5 / 2, 1), (1 / 2, 3)]"
  unfolding TIC_points_def fixture_wiff_experiments by (simp add: fixture_experiment_def)

subsection \<open>The aggregate record\<close>

text \<open>
  C4. Where every experiment reports as many times as intensities: the TIC record at
  position 0, asked with its binary data, has its times in strictly ascending order (so
  each time occurs once), the times are exactly the times of the source points, and the
  intensity stored at a time \<open>t\<close> is the sum, from zero and in enumeration order, of the
  intensities that the source experiments report at \<open>t\<close>.
\<close>

theorem TIC_aggregation:
  assumes "this \<in> catalog_states F w smp" and "TIC_paired w"
  shows "\<exists>c. fst (chromatogram F this 0 True) = Inr c \<and>
             sorted_wrt (<) (timeArray c) \<and>
             length (intensityArray c) = length (timeArray c) \<and>
             set (timeArray c) = fst ` set (TIC_points w) \<and>
             (\<forall>t\<in>fst ` set (TIC_points w).
                map_of (zip (timeArray c) (intensityArray c)) t =
                  Some (foldl (+) 0 (map snd (filter (\<lambda>p. fst p = t) (TIC_points w)))))"
proof -
  let ?m = "fold (\<lambda>p. map_plus_assign (fst p) (snd p)) (TIC_points w) []"
  from TIC_record_paired [OF assms]
  obtain c where c: "fst (chromatogram F this 0 True) = Inr c"
    and ta: "timeArray c = map fst ?m" and ia: "intensityArray c = map snd ?m"
    by blast
  have sorted: "sorted_wrt (<) (map fst ?m)"
    by (rule sorted_fold_map_plus_assign) simp
  have keys: "set (map fst ?m) = fst ` set (TIC_points w)"
    by (simp add: keys_fold_map_plus_assign)
  have zip: "zip (map fst ?m) (map snd ?m) = ?m"
    by (rule zip_map_fst_snd)
  have sums: "map_of ?m t = Some (foldl (+) 0 (map snd (filter (\<lambda>p. fst p = t) (TIC_points w))))"
    if "t \<in> fst ` set (TIC_points w)" for t
    using that map_of_fold_map_plus_assign [of "[]" "TIC_points w" t]
    by (simp add: value_at_def)
  show ?thesis
  proof (intro exI [of _ c] conjI ballI)
    show "fst (chromatogram F this 0 True) = Inr c" by (rule c)
    show "sorted_wrt (<) (timeArray c)" unfolding ta by (rule sorted)
    show "length (intensityArray c) = length (timeArray c)" unfolding ta ia by simp
    show "set (timeArray c) = fst ` set (TIC_points w)" unfolding ta by (rule keys)
    fix t
    assume "t \<in> fst ` set (TIC_points w)"
    then show "map_of (zip (timeArray c) (intensityArray c)) t =
                 Some (foldl (+) 0 (map snd (filter (\<lambda>p. fst p = t) (TIC_points w))))"
      unfolding ta ia zip by (rule sums)
  qed
qed

theorem TIC_aggregation_witness:
  "ChromatogramList_ABI_ctor fixture_wiff 1 \<in> catalog_states fixture_format fixture_wiff 1 \<and>
   TIC_paired fixture_wiff \<and>
   (\<exists>c. fst (chromatogram fixture_format (ChromatogramList_ABI_ctor fixture_wiff 1) 0 True) = Inr c \<and>
        sorted_wrt (<) (timeArray c) \<and>
        set (timeArray c) = {1 / 2, 123 / 100, 5 / 2} \<and>
        map_of (zip (timeArray c) (intensityArray c)) (123 / 100) = Some 12)"
proof -
  have st: "ChromatogramList_ABI_ctor fixture_wiff 1 \<in> catalog_states fixture_format fixture_wiff 1"
    by (rule ctor_in_catalog_states)
  from TIC_aggregation [OF st fixture_wiff_paired]
  obtain c where c: "fst (chromatogram fixture_format (ChromatogramList_ABI_ctor fixture_wiff 1) 0 True) = Inr c"
    and sorted: "sorted_wrt (<) (timeArray c)"
    and keys: "set (timeArray c) = fst ` set (TIC_points fixture_wiff)"
    and sums: "\<forall>t\<in>fst ` set (TIC_points fixture_wiff).
                map_of (zip (timeArray c) (intensityArray c)) t =
                  Some (foldl (+) 0 (map snd (filter (\<lambda>p. fst p = t) (TIC_points fixture_wiff))))"
    by blast
  have k: "set (timeArray c) = {1 / 2, 123 / 100, 5 / 2}"
    unfolding keys fixture_wiff_points by auto
  have "(123 / 100 :: real) \<in> fst ` set (TIC_points fixture_wiff)"
    unfolding fixture_wiff_points by simp
  with sums have "map_of (zip (timeArray c) (intensityArray c)) (123 / 100) =
      Some (foldl (+) 0 (map snd (filter (\<lambda>p. fst p = 123 / 100) (TIC_points fixture_wiff))))"
    by (rule bspec)
  then have s: "map_of (zip (timeArray c) (intensityArray c)) (123 / 100) = Some 12"
    unfolding fixture_wiff_points by simp
  show ?thesis
    using st fixture_wiff_paired c sorted k s by blast
qed



subsection \<open>Records without binary data\<close>

text \<open>
  C7. For every valid position (for the TIC record, where the TIC vectors can be read):
  without binary data the record has empty time and intensity arrays, and its
  defaultArrayLength is the length of the time array returned with binary data (and of
  the intensity array, for the TIC record); the two calls agree on defaultArrayLength.
\<close>

theorem defaultArrayLength_without_binary_data:
  assumes "this \<in> catalog_states F w smp"
    and "p < fst (size_ABI F this)"
    and "p = 0 \<longrightarrow> TIC_readable w"
  shows "\<exists>c c'. fst (chromatogram F this p False) = Inr c \<and>
                 fst (chromatogram F this p True) = Inr c' \<and>
                 timeArray c = [] \<and> intensityArray c = [] \<and>
                 defaultArrayLength c = length (timeArray c') \<and>
                 defaultArrayLength c = defaultArrayLength c' \<and>
                 (p = 0 \<longrightarrow> defaultArrayLength c = length (intensityArray c'))"
proof (cases p)
  case 0
  with assms(3) have "TIC_readable w" by simp
  then obtain m where m: "full_file_TIC w = Inr m"
    using full_file_TIC_readable by blast
  show ?thesis
    using chromatogram_TIC_arrays [OF m, of False] chromatogram_TIC_arrays [OF m, of True]
    unfolding 0 chromatogram_at_0 [OF assms(1)]
    by (metis length_map)
next
  case (Suc n)
  show ?thesis
    using assms(2) chromatogram_SRM_arrays [of F w _ False] chromatogram_SRM_arrays [of F w _ True]
    unfolding Suc chromatogram_at_Suc [OF assms(1) assms(2) [unfolded Suc]]
    by (metis nat.distinct(1))
qed

theorem defaultArrayLength_without_binary_data_witness:
  "ChromatogramList_ABI_ctor fixture_wiff 1 \<in> catalog_states fixture_format fixture_wiff 1 \<and>
   (1::nat) < fst (size_ABI fixture_format (ChromatogramList_ABI_ctor fixture_wiff 1)) \<and>
   (0::nat) < fst (size_ABI fixture_format (ChromatogramList_ABI_ctor fixture_wiff 1)) \<and>
   TIC_readable fixture_wiff \<and>
   (\<exists>c c'. fst (chromatogram fixture_format (ChromatogramList_ABI_ctor fixture_wiff 1) 1 False) = Inr c \<and>
      fst (chromatogram fixture_format (ChromatogramList_ABI_ctor fixture_wiff 1) 1 True) = Inr c' \<and>
      timeArray c = [] \<and> intensityArray c = [] \<and>
      defaultArrayLength c = length (timeArray c') \<and> defaultArrayLength c = 3) \<and>
   (\<exists>c c'. fst (chromatogram fixture_format (ChromatogramList_ABI_ctor fixture_wiff 1) 0 False) = Inr c \<and>
      fst (chromatogram fixture_format (ChromatogramList_ABI_ctor fixture_wiff 1) 0 True) = Inr c' \<and>
      timeArray c = [] \<and> intensityArray c = [] \<and>
      defaultArrayLength c = length (timeArray c') \<and>
      defaultArrayLength c = length (intensityArray c') \<and> defaultArrayLength c = 3)"
proof -
  let ?cat = "ChromatogramList_ABI_ctor fixture_wiff 1"
  have st: "?cat \<in> catalog_states fixture_format fixture_wiff 1"
    by (rule ctor_in_catalog_states)
  have sz: "fst (size_ABI fixture_format ?cat) = 2"
    by code_simp
  have lt1: "(1::nat) < fst (size_ABI fixture_format ?cat)"
    and lt0: "(0::nat) < fst (size_ABI fixture_format ?cat)"
    unfolding sz by simp_all
  have rd: "TIC_readable fixture_wiff"
    by (rule TIC_paired_readable) (rule fixture_wiff_paired)
  have n1: "map_sum id defaultArrayLength (fst (chromatogram fixture_format ?cat 1 False)) = Inr 3"
    by code_simp
  have n0: "map_sum id defaultArrayLength (fst (chromatogram fixture_format ?cat 0 False)) = Inr 3"
    by code_simp
  from defaultArrayLength_without_binary_data [OF st lt1] n1
  have a: "\<exists>c c'. fst (chromatogram fixture_format ?cat 1 False) = Inr c \<and>
      fst (chromatogram fixture_format ?cat 1 True) = Inr c' \<and>
      timeArray c = [] \<and> intensityArray c = [] \<and>
      defaultArrayLength c = length (timeArray c') \<and> defaultArrayLength c = 3"
    by auto
  from defaultArrayLength_without_binary_data [OF st lt0] rd n0
  have b: "\<exists>c c'. fst (chromatogram fixture_format ?cat 0 False) = Inr c \<and>
      fst (chromatogram fixture_format ?cat 0 True) = Inr c' \<and>
      timeArray c = [] \<and> intensityArray c = [] \<and>
      defaultArrayLength c = length (timeArray c') \<and>
      defaultArrayLength c = length (intensityArray c') \<and> defaultArrayLength c = 3"
    by auto
  show ?thesis
    using st lt1 lt0 rd a b by blast
qed

subsection \<open>Positions at and beyond the end\<close>

text \<open>
  The guard of chromatogramIdentity and chromatogram is \<open>index > size_\<close>. A position
  greater than size() is refused with the error that names it; the position size() itself
  passes the guard and reaches the unchecked read \<open>index_[index]\<close>.
\<close>

lemma bad_index_beyond_size:
  assumes "this \<in> catalog_states F w smp" and "fst (size_ABI F this) < idx"
  shows "fst (chromatogramIdentity F this idx) =
           Inl (runtime_error (''[ChromatogramList_ABI::chromatogramIdentity()] Bad index: '' @
                               string_of_nat idx))"
    and "fst (chromatogram F this idx b) =
           Inl (runtime_error (''[ChromatogramList_ABI::chromatogram()] Bad index: '' @
                               string_of_nat idx))"
  using assms(2) call_once_catalog [OF assms(1)]
  by (simp_all add: chromatogramIdentity_def chromatogram_def size_ABI_def Let_def)

lemma index_equal_to_size:
  assumes "this \<in> catalog_states F w smp"
  shows "fst (chromatogramIdentity F this (fst (size_ABI F this))) =
           Inl (out_of_bounds_read (fst (size_ABI F this)))"
    and "fst (chromatogram F this (fst (size_ABI F this)) b) =
           Inl (out_of_bounds_read (fst (size_ABI F this)))"
  using call_once_catalog [OF assms]
  by (simp_all add: chromatogramIdentity_def chromatogram_def size_ABI_def vector_at_def Let_def)

text \<open>
  C1 (the code differs). On the file without periods size() is 1; position 1 is not
  refused by either function, both read the index out of bounds. Position 2 is refused.
\<close>

theorem bad_index_at_size:
  "fst (size_ABI fixture_format (ChromatogramList_ABI_ctor fixture_empty 1)) = 1 \<and>
   fst (chromatogramIdentity fixture_format (ChromatogramList_ABI_ctor fixture_empty 1) 1) =
     Inl (out_of_bounds_read 1) \<and>
   fst (chromatogram fixture_format (ChromatogramList_ABI_ctor fixture_empty 1) 1 True) =
     Inl (out_of_bounds_read 1) \<and>
   fst (chromatogram fixture_format (ChromatogramList_ABI_ctor fixture_empty 1) 1 False) =
     Inl (out_of_bounds_read 1) \<and>
   fst (chromatogramIdentity fixture_format (ChromatogramList_ABI_ctor fixture_empty 1) 2) =
     Inl (runtime_error ''[ChromatogramList_ABI::chromatogramIdentity()] Bad index: 2'')"
  by code_simp

text \<open>
  C2 (the code differs). On the fixture file the ids of the entries at positions 0 and 1
  are not found: find returns size(), which is 2, for both.
\<close>

theorem find_round_trip_fails:
  "map_sum id id_str
     (fst (chromatogramIdentity fixture_format (ChromatogramList_ABI_ctor fixture_wiff 1) 0)) =
     Inr ''TIC'' \<and>
   fst (find_ABI fixture_format (ChromatogramList_ABI_ctor fixture_wiff 1) ''TIC'') = 2 \<and>
   map_sum id id_str
     (fst (chromatogramIdentity fixture_format (ChromatogramList_ABI_ctor fixture_wiff 1) 1)) =
     Inr ''SRM SIC Q1=400 Q3=200 sample=1 period=1 experiment=1 transition=0'' \<and>
   fst (find_ABI fixture_format (ChromatogramList_ABI_ctor fixture_wiff 1)
          ''SRM SIC Q1=400 Q3=200 sample=1 period=1 experiment=1 transition=0'') = 2"
  by code_simp

end
